theory Spec2Isabelle
  imports Main "HOL-Library.Sublist" "HOL-Library.Multiset"
begin

section \<open>Exceptions\<close>

text \<open>
  Every exception the feed generator can raise is a value.  The spec's names are
  MissingField (\<open>KeyError\<close>, carrying the missing key), ParseError (\<open>ValueError\<close>),
  NotFound (\<open>FileNotFoundError\<close>, carrying the path) and IOError (\<open>OSError\<close>).
  \<open>TypeError\<close> is what Python raises when an offset-naive datetime is compared with
  an offset-aware one.
\<close>

datatype error =
    KeyError string
  | ValueError
  | FileNotFoundError string
  | TypeError
  | OSError string

section \<open>The standard library: datetime\<close>

text \<open>
  A \<open>datetime.timezone\<close> is a fixed offset from UTC; the offset is kept in
  microseconds.  Only \<open>timezone\<close> instances occur: they are what
  \<open>datetime.fromisoformat\<close> attaches, and \<open>datetime.UTC\<close> is the one of offset 0.
  A datetime whose \<open>tzinfo\<close> is \<open>None\<close> is offset-naive.
\<close>

datatype timezone = Timezone (utcoffset: int)

definition UTC :: timezone where
  "UTC = Timezone 0"

record datetime =
  year :: nat
  month :: nat
  day :: nat
  hour :: nat
  minute :: nat
  second :: nat
  microsecond :: nat
  tzinfo :: "timezone option"

subsection \<open>The proleptic Gregorian calendar\<close>

definition is_leap :: "nat \<Rightarrow> bool" where
  "is_leap y = (y mod 4 = 0 \<and> (y mod 100 \<noteq> 0 \<or> y mod 400 = 0))"

definition days_before_year :: "nat \<Rightarrow> nat" where
  "days_before_year y = (let y' = y - 1 in y' * 365 + y' div 4 - y' div 100 + y' div 400)"

definition DAYS_IN_MONTH :: "nat list" where
  "DAYS_IN_MONTH = [0, 31, 28, 31, 30, 31, 30, 31, 31, 30, 31, 30, 31]"

definition DAYS_BEFORE_MONTH :: "nat list" where
  "DAYS_BEFORE_MONTH = [0, 0, 31, 59, 90, 120, 151, 181, 212, 243, 273, 304, 334]"

definition days_in_month :: "nat \<Rightarrow> nat \<Rightarrow> nat" where
  "days_in_month y m = (if m = 2 \<and> is_leap y then 29 else DAYS_IN_MONTH ! m)"

definition days_before_month :: "nat \<Rightarrow> nat \<Rightarrow> nat" where
  "days_before_month y m = DAYS_BEFORE_MONTH ! m + (if m > 2 \<and> is_leap y then 1 else 0)"

definition ymd2ord :: "nat \<Rightarrow> nat \<Rightarrow> nat \<Rightarrow> nat" where
  "ymd2ord y m d = days_before_year y + days_before_month y m + d"

text \<open>The inverse of \<open>ymd2ord\<close>, as \<open>datetime._ord2ymd\<close> computes it.\<close>

definition ord2ymd :: "nat \<Rightarrow> nat \<times> nat \<times> nat" where
  "ord2ymd n0 =
     (let n = n0 - 1;
          n400 = n div 146097; n = n mod 146097;
          n100 = n div 36524; n = n mod 36524;
          n4 = n div 1461; n = n mod 1461;
          n1 = n div 365; n = n mod 365;
          y = n400 * 400 + 1 + n100 * 100 + n4 * 4 + n1
      in if n1 = 4 \<or> n100 = 4 then (y - 1, 12, 31)
         else
           let leapyear = (n1 = 3 \<and> (n4 \<noteq> 24 \<or> n100 = 3));
               m = (n + 50) div 32;
               preceding = DAYS_BEFORE_MONTH ! m + (if m > 2 \<and> leapyear then 1 else 0)
           in if preceding > n
              then let m' = m - 1;
                       preceding' = preceding - (DAYS_IN_MONTH ! m' + (if m' = 2 \<and> leapyear then 1 else 0))
                   in (y, m', n - preceding' + 1)
              else (y, m, n - preceding + 1))"

definition toordinal :: "datetime \<Rightarrow> nat" where
  "toordinal dt = ymd2ord (year dt) (month dt) (day dt)"

text \<open>Monday is 0, Sunday is 6.\<close>

definition weekday :: "datetime \<Rightarrow> nat" where
  "weekday dt = (toordinal dt + 6) mod 7"

text \<open>
  The constructor of \<open>datetime\<close> accepts exactly the field values below; every datetime
  object of a running program satisfies \<open>valid_datetime\<close>.
\<close>

definition valid_datetime :: "datetime \<Rightarrow> bool" where
  "valid_datetime dt =
     (1 \<le> year dt \<and> year dt \<le> 9999 \<and> 1 \<le> month dt \<and> month dt \<le> 12 \<and>
      1 \<le> day dt \<and> day dt \<le> days_in_month (year dt) (month dt) \<and>
      hour dt < 24 \<and> minute dt < 60 \<and> second dt < 60 \<and> microsecond dt < 1000000 \<and>
      (case tzinfo dt of None \<Rightarrow> True
       | Some z \<Rightarrow> - 86400000000 < utcoffset z \<and> utcoffset z < 86400000000))"

subsection \<open>Comparison\<close>

text \<open>
  \<open>instant\<close> is the number of microseconds between 0001-01-01T00:00:00 UTC and the point
  in time an aware datetime denotes; for a naive datetime it is computed with offset 0.
  Python orders two naive datetimes by their fields and two aware ones by the instant
  they denote (for valid field values the two orders agree, which is proved as
  \<open>instant_less_iff_fields\<close>); comparing a naive with an
  aware datetime with \<open><\<close> raises \<open>TypeError\<close>.
\<close>

definition instant :: "datetime \<Rightarrow> int" where
  "instant dt =
     ((int (toordinal dt) * 86400 + int (hour dt * 3600 + minute dt * 60 + second dt)) * 1000000
        + int (microsecond dt))
     - (case tzinfo dt of None \<Rightarrow> 0 | Some z \<Rightarrow> utcoffset z)"

definition comparable :: "datetime \<Rightarrow> datetime \<Rightarrow> bool" where
  "comparable a b = ((tzinfo a = None) = (tzinfo b = None))"

definition datetime_lt :: "datetime \<Rightarrow> datetime \<Rightarrow> error + bool" where
  "datetime_lt a b =
     (if comparable a b then Inr (instant a < instant b)
      else Inl TypeError)"

text \<open>
  Python itself compares two naive datetimes, and two aware ones of the same zone, field
  by field, from the year down to the microsecond.
\<close>

definition fields_lt :: "datetime \<Rightarrow> datetime \<Rightarrow> bool" where
  "fields_lt a b =
     (year a < year b \<or> (year a = year b \<and>
      (month a < month b \<or> (month a = month b \<and>
       (day a < day b \<or> (day a = day b \<and>
        (hour a < hour b \<or> (hour a = hour b \<and>
         (minute a < minute b \<or> (minute a = minute b \<and>
          (second a < second b \<or> (second a = second b \<and>
           microsecond a < microsecond b))))))))))))"

definition days_in_year :: "nat \<Rightarrow> nat" where
  "days_in_year y = (if is_leap y then 366 else 365)"

subsection \<open>Printing numbers\<close>

definition digit_char :: "nat \<Rightarrow> char" where
  "digit_char n = ''0123456789'' ! n"

fun show_nat :: "nat \<Rightarrow> string" where
  "show_nat n = (if n < 10 then [digit_char n] else show_nat (n div 10) @ [digit_char (n mod 10)])"

declare show_nat.simps [simp del]

text \<open>The conversion \<open>%0wd\<close> of a non-negative number.\<close>

definition zero_pad :: "nat \<Rightarrow> nat \<Rightarrow> string" where
  "zero_pad w n = replicate (w - length (show_nat n)) CHR ''0'' @ show_nat n"

subsection \<open>\<open>email.utils.format_datetime\<close> with \<open>usegmt=True\<close>\<close>

definition DAY_NAMES :: "string list" where
  "DAY_NAMES = [''Mon'', ''Tue'', ''Wed'', ''Thu'', ''Fri'', ''Sat'', ''Sun'']"

definition MONTH_NAMES :: "string list" where
  "MONTH_NAMES = [''Jan'', ''Feb'', ''Mar'', ''Apr'', ''May'', ''Jun'',
                  ''Jul'', ''Aug'', ''Sep'', ''Oct'', ''Nov'', ''Dec'']"

text \<open>\<open>'%s, %02d %s %04d %02d:%02d:%02d %s'\<close> on the time tuple of the datetime.\<close>

definition format_timetuple_and_zone :: "datetime \<Rightarrow> string \<Rightarrow> string" where
  "format_timetuple_and_zone dt zone =
     DAY_NAMES ! weekday dt @ '', '' @ zero_pad 2 (day dt) @ '' '' @
     MONTH_NAMES ! (month dt - 1) @ '' '' @ zero_pad 4 (year dt) @ '' '' @
     zero_pad 2 (hour dt) @ '':'' @ zero_pad 2 (minute dt) @ '':'' @ zero_pad 2 (second dt) @
     '' '' @ zone"

definition format_datetime_usegmt :: "datetime \<Rightarrow> error + string" where
  "format_datetime_usegmt dt =
     (if tzinfo dt = None \<or> tzinfo dt \<noteq> Some UTC
      then Inl ValueError
      else Inr (format_timetuple_and_zone dt ''GMT''))"

subsection \<open>\<open>datetime.fromisoformat\<close>\<close>

text \<open>
  The parser covers the extended calendar form of ISO 8601,
  \<open>YYYY-MM-DD[*HH[:MM[:SS[.f+]]][Z|(+|-)HH[:MM[:SS[.f+]]]]]\<close> with any one character
  for \<open>*\<close>.  The basic forms without separators and the week dates, which the library
  also reads, are outside this model and are rejected by it.
\<close>

definition is_ascii_digit :: "char \<Rightarrow> bool" where
  "is_ascii_digit c = (c \<in> set ''0123456789'')"

definition digit_value :: "char \<Rightarrow> nat" where
  "digit_value c = of_char c - 48"

definition parse_int :: "string \<Rightarrow> nat option" where
  "parse_int s =
     (if s \<noteq> [] \<and> list_all is_ascii_digit s
      then Some (foldl (\<lambda>a c. 10 * a + digit_value c) 0 s) else None)"

definition parse_isoformat_date :: "string \<Rightarrow> (nat \<times> nat \<times> nat) option" where
  "parse_isoformat_date dstr =
     (if length dstr = 10 \<and> dstr ! 4 = CHR ''-'' \<and> dstr ! 7 = CHR ''-''
      then (case (parse_int (take 4 dstr), parse_int (take 2 (drop 5 dstr)), parse_int (drop 8 dstr)) of
              (Some y, Some m, Some d) \<Rightarrow> Some (y, m, d)
            | _ \<Rightarrow> None)
      else None)"

text \<open>A fraction of a second: at least one digit, the digits after the sixth are dropped.\<close>

definition parse_fraction :: "string \<Rightarrow> nat option" where
  "parse_fraction fs =
     (if fs \<noteq> [] \<and> list_all is_ascii_digit fs
      then parse_int (take 6 (fs @ replicate 6 CHR ''0'')) else None)"

definition parse_hh_mm_ss_ff :: "string \<Rightarrow> (nat \<times> nat \<times> nat \<times> nat) option" where
  "parse_hh_mm_ss_ff tstr =
     (let n = length tstr;
          hh = parse_int (take 2 tstr);
          mm = (if n = 2 then Some 0
                else if tstr ! 2 = CHR '':'' then parse_int (take 2 (drop 3 tstr)) else None);
          ss = (if n \<le> 5 then Some 0
                else if tstr ! 5 = CHR '':'' then parse_int (take 2 (drop 6 tstr)) else None);
          ff = (if n \<le> 8 then Some 0
                else if tstr ! 8 = CHR ''.'' \<or> tstr ! 8 = CHR '','' then parse_fraction (drop 9 tstr)
                else None)
      in if n = 2 \<or> n = 5 \<or> n = 8 \<or> n > 9
         then (case (hh, mm, ss, ff) of
                 (Some h, Some m, Some s, Some f) \<Rightarrow> Some (h, m, s, f)
               | _ \<Rightarrow> None)
         else None)"

text \<open>\<open>str.find\<close> of one character: the index of its first occurrence.\<close>

definition find_char :: "char \<Rightarrow> string \<Rightarrow> nat option" where
  "find_char c s = (if c \<in> set s then Some (length (takeWhile (\<lambda>x. x \<noteq> c) s)) else None)"

text \<open>
  The position after the first \<open>-\<close>, else after the first \<open>+\<close>, else after the first
  \<open>Z\<close>; 0 when the string has none of them.
\<close>

definition tz_position :: "string \<Rightarrow> nat" where
  "tz_position tstr =
     (case find_char CHR ''-'' tstr of Some i \<Rightarrow> i + 1
      | None \<Rightarrow> (case find_char CHR ''+'' tstr of Some i \<Rightarrow> i + 1
         | None \<Rightarrow> (case find_char CHR ''Z'' tstr of Some i \<Rightarrow> i + 1 | None \<Rightarrow> 0)))"

definition parse_isoformat_time :: "string \<Rightarrow> ((nat \<times> nat \<times> nat \<times> nat) \<times> timezone option) option" where
  "parse_isoformat_time tstr =
     (let tz_pos = tz_position tstr;
          timestr = (if tz_pos > 0 then take (tz_pos - 1) tstr else tstr)
      in case parse_hh_mm_ss_ff timestr of
           None \<Rightarrow> None
         | Some time_comps \<Rightarrow>
             if tz_pos = length tstr \<and> tstr \<noteq> [] \<and> last tstr = CHR ''Z'' then Some (time_comps, Some UTC)
             else if tz_pos > 0 then
               (let tzstr = drop tz_pos tstr in
                if length tzstr = 0 \<or> length tzstr = 1 \<or> length tzstr = 3 then None
                else case parse_hh_mm_ss_ff tzstr of
                       None \<Rightarrow> None
                     | Some (h, m, s, f) \<Rightarrow>
                         if h = 0 \<and> m = 0 \<and> s = 0 \<and> f = 0 then Some (time_comps, Some UTC)
                         else
                           (let tzsign = (if tstr ! (tz_pos - 1) = CHR ''-'' then - 1 else 1);
                                td = tzsign * (int (h * 3600 + m * 60 + s) * 1000000 + int f)
                            in if - 86400000000 < td \<and> td < 86400000000
                               then Some (time_comps, Some (Timezone td)) else None))
             else Some (time_comps, None))"

definition fromisoformat :: "string \<Rightarrow> error + datetime" where
  "fromisoformat date_string =
     (if length date_string < 10 then Inl ValueError
      else case parse_isoformat_date (take 10 date_string) of
             None \<Rightarrow> Inl ValueError
           | Some (y, m, d) \<Rightarrow>
               (let tstr = drop 11 date_string
                in case (if tstr = [] then Some ((0, 0, 0, 0), None) else parse_isoformat_time tstr) of
                     None \<Rightarrow> Inl ValueError
                   | Some ((hh, mm, ss, us), tz) \<Rightarrow>
                       (let dt = \<lparr>year = y, month = m, day = d, hour = hh, minute = mm,
                                  second = ss, microsecond = us, tzinfo = tz\<rparr>
                        in if valid_datetime dt then Inr dt else Inl ValueError)))"

section \<open>The standard library: strings\<close>

text \<open>\<open>s.replace(c, r)\<close> for a one-character \<open>c\<close>.\<close>

definition str_replace :: "char \<Rightarrow> string \<Rightarrow> string \<Rightarrow> string" where
  "str_replace c r s = concat (map (\<lambda>x. if x = c then r else [x]) s)"

text \<open>\<open>html.escape\<close>: the ampersand is replaced first.\<close>

definition escape :: "string \<Rightarrow> bool \<Rightarrow> string" where
  \<open>escape s quote =
     (let s1 = str_replace CHR ''&'' ''&amp;'' s;
          s2 = str_replace CHR ''<'' ''&lt;'' s1;
          s3 = str_replace CHR ''>'' ''&gt;'' s2
      in if quote
         then str_replace (CHR 0x27) ''&#x27;'' (str_replace (CHR 0x22) ''&quot;'' s3)
         else s3)\<close>

definition startswith :: "string \<Rightarrow> string \<Rightarrow> bool" where
  "startswith s p = (take (length p) s = p)"

fun join :: "string \<Rightarrow> string list \<Rightarrow> string" where
  "join sep [] = []"
| "join sep [x] = x"
| "join sep (x # y # ys) = x @ sep @ join sep (y # ys)"

section \<open>Feed entries\<close>

record RSSItem =
  title :: string
  date :: datetime
  description :: string
  url :: string
  author :: string

section \<open>The environment\<close>

text \<open>
  What the code reads from outside itself and does not compute: \<open>urllib.parse.urljoin\<close>,
  \<open>pprint.pformat\<close> of the item list (used in a debug message only), and the UTC offset,
  in microseconds, of the local zone at a given POSIX time.
\<close>

record platform =
  urljoin :: "string \<Rightarrow> string \<Rightarrow> string"
  pformat :: "RSSItem list \<Rightarrow> string"
  local_utcoffset :: "int \<Rightarrow> int"

text \<open>
  \<open>datetime.fromtimestamp(t)\<close> without a zone: the naive local time.  The timestamp is in
  microseconds since 1970-01-01T00:00:00 UTC, whose ordinal is 719163.
\<close>

definition fromtimestamp :: "platform \<Rightarrow> int \<Rightarrow> datetime" where
  "fromtimestamp p t =
     (let local = t + local_utcoffset p t;
          days = local div 86400000000;
          rest = nat (local mod 86400000000);
          secs = rest div 1000000
      in case ord2ymd (nat (719163 + days)) of
           (y, m, d) \<Rightarrow>
             \<lparr>year = y, month = m, day = d, hour = secs div 3600, minute = (secs mod 3600) div 60,
              second = secs mod 60, microsecond = rest mod 1000000, tzinfo = None\<rparr>)"

text \<open>
  The file system and the clock.  A path that is not in \<open>files\<close> does not exist;
  \<open>openable\<close> says whether opening a path for writing succeeds.
\<close>

record stat_file =
  st_mtime :: int
  content :: string

datatype log_record = Info string | Debug string

record world =
  files :: "string \<rightharpoonup> stat_file"
  openable :: "string \<Rightarrow> bool"
  clock :: int
  log :: "log_record list"

definition datetime_now :: "platform \<Rightarrow> world \<Rightarrow> datetime" where
  "datetime_now p w = fromtimestamp p (clock w)"

text \<open>\<open>dir / name\<close> of \<open>pathlib\<close>, for a relative \<open>name\<close>.\<close>

definition path_join :: "string \<Rightarrow> string \<Rightarrow> string" where
  "path_join dir name = dir @ ''/'' @ name"

text \<open>
  The Sphinx application: \<open>app.config.html_baseurl\<close>, \<open>app.builder.get_target_uri\<close>,
  \<open>app.srcdir\<close>, \<open>app.outdir\<close> and \<open>app.builder.env.metadata\<close>, a dict from page
  names to metadata dicts, kept as the list of its items in iteration order.
\<close>

record app =
  html_baseurl :: string
  get_target_uri :: "string \<Rightarrow> string"
  srcdir :: string
  outdir :: string
  metadata :: "(string \<times> (string \<rightharpoonup> string)) list"

section \<open>\<open>_format_rfc_2822\<close>\<close>

text \<open>\<open>dt.replace(tzinfo=UTC)\<close> keeps every field and sets the zone.\<close>

definition format_rfc_2822 :: "datetime \<Rightarrow> error + string" where
  "format_rfc_2822 dt = format_datetime_usegmt (dt\<lparr>tzinfo := Some UTC\<rparr>)"

section \<open>\<open>RSSItem\<close>\<close>

definition get_date_updated ::
  "platform \<Rightarrow> world \<Rightarrow> app \<Rightarrow> string \<Rightarrow> (string \<rightharpoonup> string) \<Rightarrow> error + datetime" where
  "get_date_updated p w a page_name meta =
     (case meta ''date_updated'' of
        Some v \<Rightarrow> fromisoformat v
      | None \<Rightarrow>
          (let page_path = path_join (srcdir a) (page_name @ ''.md'')
           in case files w page_path of
                None \<Rightarrow> Inl (FileNotFoundError page_path)
              | Some f \<Rightarrow> Inr (fromtimestamp p (st_mtime f))))"

text \<open>
  The keyword arguments are evaluated in the order they are written: the title, the
  description, the date, the author.
\<close>

definition from_meta ::
  "platform \<Rightarrow> world \<Rightarrow> app \<Rightarrow> string \<Rightarrow> (string \<rightharpoonup> string) \<Rightarrow> error + RSSItem" where
  "from_meta p w a page_name meta =
     (let url' = urljoin p (html_baseurl a) (get_target_uri a page_name)
      in case meta '':og:title'' of
           None \<Rightarrow> Inl (KeyError '':og:title'')
         | Some t \<Rightarrow>
             (case meta '':og:description'' of
                None \<Rightarrow> Inl (KeyError '':og:description'')
              | Some d \<Rightarrow>
                  (case get_date_updated p w a page_name meta of
                     Inl e \<Rightarrow> Inl e
                   | Inr dt \<Rightarrow>
                       Inr \<lparr>title = t, date = dt, description = d, url = url',
                            author = (case meta '':og:author'' of
                                        None \<Rightarrow> ''pyOpenSci'' | Some au \<Rightarrow> au)\<rparr>)))"

definition RSSItem_render :: "RSSItem \<Rightarrow> error + string" where
  \<open>RSSItem_render self =
     (case format_rfc_2822 (date self) of
        Inl e \<Rightarrow> Inl e
      | Inr pub_date \<Rightarrow> Inr (
          ''<item>\<newline>'' @
          ''  <title>'' @ escape (title self) False @ ''</title>\<newline>'' @
          ''  <link>'' @ escape (url self) False @ ''</link>\<newline>'' @
          ''  <description>'' @ escape (description self) False @ ''</description>\<newline>'' @
          ''  <author>'' @ escape (author self) False @ ''</author>\<newline>'' @
          ''  <guid isPermaLink="true">'' @ url self @ ''</guid>\<newline>'' @
          ''  <pubDate>'' @ pub_date @ ''</pubDate>\<newline>'' @
          ''</item>''))\<close>

section \<open>\<open>RSSFeed\<close>\<close>

record RSSFeed =
  items :: "RSSItem list"
  last_build_date :: datetime
  title :: string
  link :: string
  self_link :: string
  description :: string
  language :: string

text \<open>
  The defaults of the fields are evaluated once, when the class body runs as the module
  is imported.  All are literals but the one of \<open>last_build_date\<close>, which is the value
  \<open>datetime.now()\<close> had at that moment; the module object keeps it.
\<close>

record rss_module =
  last_build_date_default :: datetime

definition import_module :: "platform \<Rightarrow> world \<Rightarrow> rss_module" where
  "import_module p w = \<lparr>last_build_date_default = datetime_now p w\<rparr>"

text \<open>
  The generated constructor, for the callers that pass the items and possibly the build
  date.  It does not read the clock.
\<close>

definition RSSFeed_init :: "rss_module \<Rightarrow> RSSItem list \<Rightarrow> datetime option \<Rightarrow> RSSFeed" where
  "RSSFeed_init m its lbd =
     \<lparr>items = its,
      last_build_date = (case lbd of None \<Rightarrow> last_build_date_default m | Some d \<Rightarrow> d),
      title = ''pyOpenSci Tutorials'',
      link = ''https://www.pyopensci.org/python-package-guide/tutorials/intro.html'',
      self_link = ''https://www.pyopensci.org/python-package-guide/tutorials.rss'',
      description = ''A tutorial feed that lists metadata for the pyOpenSci Python packaging tutorials so we can automatically list them on our website.'',
      language = ''en''\<rparr>"

subsection \<open>\<open>sorted(self.items, key=lambda i: i.date, reverse=True)\<close>\<close>

text \<open>
  \<open>sorted\<close> is stable, also with \<open>reverse=True\<close>: of two items whose keys are equal the
  one that is first in the input is first in the result.  Its result is that of the
  insertion sort below, which puts an item in front of the first item of the sorted rest
  whose key is not greater.  A list of two or more items makes \<open>sorted\<close> compare keys
  until the order of all items is known, so a list with both a naive and an aware date
  makes it compare one of each kind, and the \<open>TypeError\<close> of that comparison leaves
  \<open>sorted\<close>.
\<close>

fun insort_reverse :: "RSSItem \<Rightarrow> RSSItem list \<Rightarrow> RSSItem list" where
  "insort_reverse x [] = [x]"
| "insort_reverse x (y # ys) =
     (if datetime_lt (date x) (date y) = Inr True then y # insort_reverse x ys else x # y # ys)"

definition sorted_reverse :: "RSSItem list \<Rightarrow> error + RSSItem list" where
  "sorted_reverse xs =
     (if list_all (\<lambda>i. tzinfo (date i) = None) xs \<or> list_all (\<lambda>i. tzinfo (date i) \<noteq> None) xs
      then Inr (foldr insort_reverse xs [])
      else Inl TypeError)"

text \<open>A list comprehension whose element expression may raise stops at the first raise.\<close>

fun collect :: "(error + 'a) list \<Rightarrow> error + 'a list" where
  "collect [] = Inr []"
| "collect (r # rs) =
     (case r of
        Inl e \<Rightarrow> Inl e
      | Inr v \<Rightarrow> (case collect rs of Inl e \<Rightarrow> Inl e | Inr vs \<Rightarrow> Inr (v # vs)))"

text \<open>
  \<open>render\<close> returns the document, or raises; the second component is the feed object as
  the call leaves it.  \<open>sorted\<close> builds a new list, and the name \<open>items\<close> that the method
  assigns twice is a local variable.
\<close>

definition RSSFeed_render :: "RSSFeed \<Rightarrow> (error + string) \<times> RSSFeed" where
  \<open>RSSFeed_render self =
     (case sorted_reverse (items self) of
        Inl e \<Rightarrow> (Inl e, self)
      | Inr items1 \<Rightarrow>
          (case collect (map RSSItem_render items1) of
             Inl e \<Rightarrow> (Inl e, self)
           | Inr rendered \<Rightarrow>
               (let items2 = join ''\<newline>'' rendered
                in case format_rfc_2822 (last_build_date self) of
                     Inl e \<Rightarrow> (Inl e, self)
                   | Inr build_date \<Rightarrow> (Inr (
                       ''<?xml version='1.0' encoding='UTF-8'?>\<newline>'' @
                       ''<rss xmlns:atom="http://www.w3.org/2005/Atom" xmlns:content="http://purl.org/rss/1.0/modules/content/" version="2.0">\<newline>'' @
                       ''  <channel>\<newline>'' @
                       ''    <title>'' @ RSSFeed.title self @ ''</title>\<newline>'' @
                       ''    <link>'' @ link self @ ''</link>\<newline>'' @
                       ''    <atom:link href="'' @ self_link self @ ''" rel="self"/>\<newline>'' @
                       ''    <description>'' @ RSSFeed.description self @ ''</description>\<newline>'' @
                       ''    <language>'' @ language self @ ''</language>\<newline>'' @
                       ''    <lastBuildDate>'' @ build_date @ ''</lastBuildDate>\<newline>'' @
                       items2 @ ''\<newline>'' @
                       ''  </channel>\<newline>'' @
                       ''</rss>\<newline>'' @
                       ''        ''), self))))\<close>

section \<open>\<open>generate_tutorials_feed\<close>\<close>

text \<open>
  The build step returns the exception that left it, if any, and the world as it leaves
  it.  \<open>open(path, "w")\<close> creates or empties the file before \<open>feed.render()\<close> is
  evaluated.
\<close>

definition tutorials_of :: "app \<Rightarrow> string list" where
  "tutorials_of a = filter (\<lambda>t. startswith t ''tutorials/'') (map fst (metadata a))"

definition feed_items_of :: "platform \<Rightarrow> world \<Rightarrow> app \<Rightarrow> error + RSSItem list" where
  "feed_items_of p w a =
     collect (map (\<lambda>t. case map_of (metadata a) t of
                          None \<Rightarrow> Inl (KeyError t)
                        | Some meta \<Rightarrow> from_meta p w a t meta) (tutorials_of a))"

definition write_file :: "world \<Rightarrow> string \<Rightarrow> string \<Rightarrow> world" where
  "write_file w path text = w\<lparr>files := (files w)(path \<mapsto> \<lparr>st_mtime = clock w, content = text\<rparr>)\<rparr>"

definition add_log :: "world \<Rightarrow> log_record \<Rightarrow> world" where
  "add_log w r = w\<lparr>log := log w @ [r]\<rparr>"

definition generate_tutorials_feed ::
  "platform \<Rightarrow> rss_module \<Rightarrow> app \<Rightarrow> world \<Rightarrow> error option \<times> world" where
  "generate_tutorials_feed p m a w =
     (let w1 = add_log w (Info ''Generating RSS feed for tutorials'')
      in case feed_items_of p w1 a of
           Inl e \<Rightarrow> (Some e, w1)
         | Inr feed_items \<Rightarrow>
             (let feed = RSSFeed_init m feed_items None;
                  path = path_join (outdir a) ''tutorials.rss''
              in if \<not> openable w1 path then (Some (OSError path), w1)
                 else
                   (let w2 = write_file w1 path []
                    in case fst (RSSFeed_render feed) of
                         Inl e \<Rightarrow> (Some e, w2)
                       | Inr doc \<Rightarrow>
                           (let w3 = write_file w2 path doc;
                                w4 = add_log w3 (Info (''Generated RSS feed for tutorials, wrote to '' @ path));
                                w5 = add_log w4 (Debug (''feed items: \<newline>'' @ pformat p feed_items))
                            in (None, w5)))))"

section \<open>The spec's words\<close>

text \<open>
  The escaping of element content as the spec describes it, one character at a time: the
  ampersand and the angle brackets become entities, every other character, the quote
  characters included, stays as it is.  It is compared with \<open>escape\<close> below.
\<close>

definition escape_char :: "char \<Rightarrow> string" where
  "escape_char c =
     (if c = CHR ''&'' then ''&amp;''
      else if c = CHR ''<'' then ''&lt;''
      else if c = CHR ''>'' then ''&gt;''
      else [c])"

text \<open>Descending order of the points in time, the order the feed lists its entries in.\<close>

definition newer_first :: "RSSItem list \<Rightarrow> bool" where
  "newer_first xs = sorted_wrt (\<lambda>x y. instant (date y) \<le> instant (date x)) xs"

section \<open>Example inputs\<close>

text \<open>
  A platform whose local zone is UTC, the site of the package guide, and a source
  directory with two tutorial pages.
\<close>

definition example_platform :: platform where
  "example_platform =
     \<lparr>urljoin = (\<lambda>base u. base @ u), pformat = (\<lambda>its. []), local_utcoffset = (\<lambda>t. 0)\<rparr>"

definition example_app :: "(string \<times> (string \<rightharpoonup> string)) list \<Rightarrow> app" where
  "example_app md =
     \<lparr>html_baseurl = ''https://www.pyopensci.org/python-package-guide/'',
      get_target_uri = (\<lambda>docname. docname @ ''.html''),
      srcdir = ''/src'', outdir = ''/out'', metadata = md\<rparr>"

definition example_world :: "int \<Rightarrow> world" where
  "example_world now =
     \<lparr>files = [''/src/tutorials/intro.md'' \<mapsto> \<lparr>st_mtime = 1705312800000000, content = []\<rparr>],
      openable = (\<lambda>path. True), clock = now, log = []\<rparr>"

definition example_meta :: "string \<rightharpoonup> string" where
  "example_meta =
     ['':og:title'' \<mapsto> ''Intro'', '':og:description'' \<mapsto> ''First steps'',
      ''date_updated'' \<mapsto> ''2024-01-15T10:00:00'']"

definition example_date :: "nat \<Rightarrow> timezone option \<Rightarrow> datetime" where
  "example_date h z =
     \<lparr>year = 2024, month = 1, day = 15, hour = h, minute = 0, second = 0, microsecond = 0,
      tzinfo = z\<rparr>"

definition example_item :: "string \<Rightarrow> datetime \<Rightarrow> RSSItem" where
  "example_item t d =
     \<lparr>RSSItem.title = t, date = d, RSSItem.description = ''First steps'',
      url = ''https://www.pyopensci.org/python-package-guide/tutorials/intro.html'',
      author = ''pyOpenSci''\<rparr>"

section \<open>Evaluation of the definitions\<close>

lemmas calendar_defs = weekday_def toordinal_def ymd2ord_def days_before_year_def
  days_before_month_def DAYS_BEFORE_MONTH_def days_in_month_def DAYS_IN_MONTH_def is_leap_def

lemmas format_defs = format_rfc_2822_def format_datetime_usegmt_def format_timetuple_and_zone_def
  DAY_NAMES_def MONTH_NAMES_def zero_pad_def show_nat.simps digit_char_def UTC_def

lemmas parse_defs = fromisoformat_def parse_isoformat_date_def parse_int_def is_ascii_digit_def
  digit_value_def parse_isoformat_time_def tz_position_def find_char_def parse_hh_mm_ss_ff_def
  parse_fraction_def valid_datetime_def Let_def UTC_def

lemma format_rfc_2822_total:
  "format_rfc_2822 dt = Inr (format_timetuple_and_zone (dt\<lparr>tzinfo := Some UTC\<rparr>) ''GMT'')"
  by (simp add: format_rfc_2822_def format_datetime_usegmt_def)

lemma fromisoformat_example:
  "fromisoformat ''2024-01-15T10:00:00'' = Inr (example_date 10 None)"
  by (simp add: parse_defs calendar_defs example_date_def)

lemma format_example:
  "format_rfc_2822 (example_date 10 z) = Inr ''Mon, 15 Jan 2024 10:00:00 GMT''"
  by (simp add: format_defs calendar_defs example_date_def)

lemma from_meta_date:
  "from_meta p w a page_name meta = Inr item \<Longrightarrow> get_date_updated p w a page_name meta = Inr (date item)"
  by (auto simp: from_meta_def Let_def split: option.splits sum.splits)

section \<open>The publication date of a dated page\<close>

text \<open>
  Claim C8.  A page whose metadata has \<open>date_updated\<close> equal to
  \<open>2024-01-15T10:00:00\<close> gets the naive datetime of that day and hour; its
  \<open>pubDate\<close> is exactly \<open>Mon, 15 Jan 2024 10:00:00 GMT\<close>, on its own and in the
  rendered item of every entry built from that metadata.
\<close>

theorem date_updated_pubDate:
  assumes "meta ''date_updated'' = Some ''2024-01-15T10:00:00''"
  shows \<open>get_date_updated p w a page_name meta = Inr (example_date 10 None) \<and>
         format_rfc_2822 (example_date 10 None) = Inr ''Mon, 15 Jan 2024 10:00:00 GMT'' \<and>
         (\<forall>item. from_meta p w a page_name meta = Inr item \<longrightarrow>
            date item = example_date 10 None \<and>
            RSSItem_render item = Inr (
              ''<item>\<newline>'' @
              ''  <title>'' @ escape (RSSItem.title item) False @ ''</title>\<newline>'' @
              ''  <link>'' @ escape (url item) False @ ''</link>\<newline>'' @
              ''  <description>'' @ escape (RSSItem.description item) False @ ''</description>\<newline>'' @
              ''  <author>'' @ escape (author item) False @ ''</author>\<newline>'' @
              ''  <guid isPermaLink="true">'' @ url item @ ''</guid>\<newline>'' @
              ''  <pubDate>Mon, 15 Jan 2024 10:00:00 GMT</pubDate>\<newline>'' @
              ''</item>''))\<close>
proof (intro conjI allI impI)
  show g: "get_date_updated p w a page_name meta = Inr (example_date 10 None)"
    using assms by (simp add: get_date_updated_def fromisoformat_example)
  show "format_rfc_2822 (example_date 10 None) = Inr ''Mon, 15 Jan 2024 10:00:00 GMT''"
    by (rule format_example)
  fix item
  assume fm: "from_meta p w a page_name meta = Inr item"
  from from_meta_date [OF fm] g show d: "date item = example_date 10 None"
    by simp
  show \<open>RSSItem_render item = Inr (
              ''<item>\<newline>'' @
              ''  <title>'' @ escape (RSSItem.title item) False @ ''</title>\<newline>'' @
              ''  <link>'' @ escape (url item) False @ ''</link>\<newline>'' @
              ''  <description>'' @ escape (RSSItem.description item) False @ ''</description>\<newline>'' @
              ''  <author>'' @ escape (author item) False @ ''</author>\<newline>'' @
              ''  <guid isPermaLink="true">'' @ url item @ ''</guid>\<newline>'' @
              ''  <pubDate>Mon, 15 Jan 2024 10:00:00 GMT</pubDate>\<newline>'' @
              ''</item>'')\<close>
    by (simp add: d RSSItem_render_def format_example)
qed

theorem date_updated_pubDate_witness:
  \<open>from_meta example_platform (example_world 0) (example_app []) ''tutorials/intro'' example_meta
     = Inr (example_item ''Intro'' (example_date 10 None)) \<and>
   RSSItem_render (example_item ''Intro'' (example_date 10 None)) = Inr (
     ''<item>\<newline>'' @
     ''  <title>Intro</title>\<newline>'' @
     ''  <link>https://www.pyopensci.org/python-package-guide/tutorials/intro.html</link>\<newline>'' @
     ''  <description>First steps</description>\<newline>'' @
     ''  <author>pyOpenSci</author>\<newline>'' @
     ''  <guid isPermaLink="true">https://www.pyopensci.org/python-package-guide/tutorials/intro.html</guid>\<newline>'' @
     ''  <pubDate>Mon, 15 Jan 2024 10:00:00 GMT</pubDate>\<newline>'' @
     ''</item>'')\<close>
proof -
  have m: "example_meta ''date_updated'' = Some ''2024-01-15T10:00:00''"
    by (simp add: example_meta_def)
  have f: "from_meta example_platform (example_world 0) (example_app []) ''tutorials/intro'' example_meta
     = Inr (example_item ''Intro'' (example_date 10 None))"
    using date_updated_pubDate [of example_meta example_platform "example_world 0" "example_app []" "''tutorials/intro''", OF m]
    by (simp add: from_meta_def example_meta_def example_item_def example_platform_def example_app_def)
  from date_updated_pubDate [of example_meta example_platform "example_world 0" "example_app []" "''tutorials/intro''", OF m] f
  show ?thesis
    by (simp add: example_item_def escape_def str_replace_def)
qed

section \<open>The zone of a timestamp is replaced, not converted\<close>

lemma format_timetuple_zone_free:
  "format_timetuple_and_zone (dt\<lparr>tzinfo := z\<rparr>) zone = format_timetuple_and_zone dt zone"
  by (simp add: format_timetuple_and_zone_def weekday_def toordinal_def)

text \<open>
  Claim C1, as stated, fails.  The timestamp 10:00 at +05:00 and the timestamp 05:00 UTC,
  both of 15 January 2024, are the same point in time, and \<open>fromisoformat\<close> yields the
  first for the \<open>date_updated\<close> value \<open>2024-01-15T10:00:00+05:00\<close>; they are
  formatted differently, the first as 10:00:00 GMT.
\<close>

theorem format_rfc_2822_keeps_wall_clock:
  "fromisoformat ''2024-01-15T10:00:00+05:00'' = Inr (example_date 10 (Some (Timezone 18000000000))) \<and>
   tzinfo (example_date 5 (Some UTC)) = Some UTC \<and>
   instant (example_date 10 (Some (Timezone 18000000000))) = instant (example_date 5 (Some UTC)) \<and>
   format_rfc_2822 (example_date 10 (Some (Timezone 18000000000))) = Inr ''Mon, 15 Jan 2024 10:00:00 GMT'' \<and>
   format_rfc_2822 (example_date 5 (Some UTC)) = Inr ''Mon, 15 Jan 2024 05:00:00 GMT'' \<and>
   format_rfc_2822 (example_date 10 (Some (Timezone 18000000000))) \<noteq> format_rfc_2822 (example_date 5 (Some UTC))"
proof -
  have p: "fromisoformat ''2024-01-15T10:00:00+05:00'' = Inr (example_date 10 (Some (Timezone 18000000000)))"
    by (simp add: parse_defs calendar_defs example_date_def)
  have i: "instant (example_date 10 (Some (Timezone 18000000000))) = instant (example_date 5 (Some UTC))"
    by (simp add: instant_def example_date_def UTC_def calendar_defs)
  have f5: "format_rfc_2822 (example_date 5 (Some UTC)) = Inr ''Mon, 15 Jan 2024 05:00:00 GMT''"
    by (simp add: format_defs calendar_defs example_date_def)
  show ?thesis
    by (simp add: p i f5 format_example) (simp add: example_date_def)
qed

text \<open>
  Claim C1, amended.  The publication date is the RFC 2822 form, with the GMT designator,
  of the calendar date and the wall-clock time the timestamp carries: formatting never
  fails and does not depend on the zone attached.  The point in time that is printed is
  the timestamp's own shifted by its UTC offset, so it is the timestamp's own when the
  zone is UTC, and then the timestamp is formatted as it is.
\<close>

theorem format_rfc_2822_relabels:
  "format_rfc_2822 dt = Inr (format_timetuple_and_zone dt ''GMT'') \<and>
   format_rfc_2822 (dt\<lparr>tzinfo := z\<rparr>) = format_rfc_2822 dt \<and>
   instant (dt\<lparr>tzinfo := Some UTC\<rparr>) = instant dt + (case tzinfo dt of None \<Rightarrow> 0 | Some tz \<Rightarrow> utcoffset tz) \<and>
   (tzinfo dt = Some UTC \<longrightarrow> format_rfc_2822 dt = format_datetime_usegmt dt)"
  by (simp add: format_rfc_2822_total format_timetuple_zone_free format_datetime_usegmt_def
      instant_def toordinal_def UTC_def split: option.splits)

theorem format_rfc_2822_relabels_witness:
  "format_rfc_2822 (example_date 10 (Some (Timezone 18000000000))) = format_rfc_2822 (example_date 10 None) \<and>
   instant (example_date 10 (Some UTC)) = instant (example_date 10 (Some (Timezone 18000000000))) + 18000000000 \<and>
   format_rfc_2822 (example_date 5 (Some UTC)) = format_datetime_usegmt (example_date 5 (Some UTC))"
proof -
  have z: "tzinfo (example_date 5 (Some UTC)) = Some UTC"
    by (simp add: example_date_def)
  have a: "format_rfc_2822 ((example_date 10 None)\<lparr>tzinfo := Some (Timezone 18000000000)\<rparr>) =
           format_rfc_2822 (example_date 10 None)"
    using format_rfc_2822_relabels [of "example_date 10 None" "Some (Timezone 18000000000)"]
    by blast
  have b: "instant ((example_date 10 (Some (Timezone 18000000000)))\<lparr>tzinfo := Some UTC\<rparr>) =
           instant (example_date 10 (Some (Timezone 18000000000))) +
           (case tzinfo (example_date 10 (Some (Timezone 18000000000))) of None \<Rightarrow> 0 | Some tz \<Rightarrow> utcoffset tz)"
    using format_rfc_2822_relabels [of "example_date 10 (Some (Timezone 18000000000))"]
    by blast
  have c: "format_rfc_2822 (example_date 5 (Some UTC)) = format_datetime_usegmt (example_date 5 (Some UTC))"
    using format_rfc_2822_relabels [of "example_date 5 (Some UTC)"] z
    by blast
  from a b c show ?thesis
    by (simp add: example_date_def)
qed

section \<open>The build date of a feed\<close>

lemma default_build_date:
  "last_build_date (RSSFeed_init (import_module p w0) its None) = datetime_now p w0"
  by (simp add: RSSFeed_init_def import_module_def)

lemma datetime_now_examples:
  "datetime_now example_platform (example_world 0) =
     \<lparr>year = 1970, month = 1, day = 1, hour = 0, minute = 0, second = 0, microsecond = 0, tzinfo = None\<rparr>"
  "datetime_now example_platform (example_world 3600000000) =
     \<lparr>year = 1970, month = 1, day = 1, hour = 1, minute = 0, second = 0, microsecond = 0, tzinfo = None\<rparr>"
  by (simp_all add: datetime_now_def fromtimestamp_def ord2ymd_def Let_def DAYS_BEFORE_MONTH_def
      DAYS_IN_MONTH_def example_platform_def example_world_def)

text \<open>
  Claim C2 does not hold of the code.  The default of \<open>last_build_date\<close> is the clock
  reading taken when the module was imported.  With the module imported at POSIX time 0
  and the feed generated one hour later, the constructor gives the feed the build date
  1970-01-01 00:00:00 although the time is then 01:00:00, and the file that is written
  carries \<open>Thu, 01 Jan 1970 00:00:00 GMT\<close>.
\<close>

theorem build_date_is_import_time:
  \<open>last_build_date (RSSFeed_init (import_module example_platform (example_world 0)) [] None) =
     \<lparr>year = 1970, month = 1, day = 1, hour = 0, minute = 0, second = 0, microsecond = 0, tzinfo = None\<rparr> \<and>
   datetime_now example_platform (example_world 3600000000) =
     \<lparr>year = 1970, month = 1, day = 1, hour = 1, minute = 0, second = 0, microsecond = 0, tzinfo = None\<rparr> \<and>
   fst (generate_tutorials_feed example_platform (import_module example_platform (example_world 0))
         (example_app []) (example_world 3600000000)) = None \<and>
   map_option content
     (files (snd (generate_tutorials_feed example_platform (import_module example_platform (example_world 0))
                   (example_app []) (example_world 3600000000))) ''/out/tutorials.rss'') =
     Some (
       ''<?xml version='1.0' encoding='UTF-8'?>\<newline>'' @
       ''<rss xmlns:atom="http://www.w3.org/2005/Atom" xmlns:content="http://purl.org/rss/1.0/modules/content/" version="2.0">\<newline>'' @
       ''  <channel>\<newline>'' @
       ''    <title>pyOpenSci Tutorials</title>\<newline>'' @
       ''    <link>https://www.pyopensci.org/python-package-guide/tutorials/intro.html</link>\<newline>'' @
       ''    <atom:link href="https://www.pyopensci.org/python-package-guide/tutorials.rss" rel="self"/>\<newline>'' @
       ''    <description>A tutorial feed that lists metadata for the pyOpenSci Python packaging tutorials so we can automatically list them on our website.</description>\<newline>'' @
       ''    <language>en</language>\<newline>'' @
       ''    <lastBuildDate>Thu, 01 Jan 1970 00:00:00 GMT</lastBuildDate>\<newline>'' @
       ''\<newline>'' @
       ''  </channel>\<newline>'' @
       ''</rss>\<newline>'' @
       ''        '')\<close>
proof -
  have f: "format_rfc_2822 (datetime_now example_platform (example_world 0)) = Inr ''Thu, 01 Jan 1970 00:00:00 GMT''"
    by (simp add: datetime_now_examples format_defs calendar_defs)
  have r: \<open>fst (RSSFeed_render (RSSFeed_init (import_module example_platform (example_world 0)) [] None)) = Inr (
       ''<?xml version='1.0' encoding='UTF-8'?>\<newline>'' @
       ''<rss xmlns:atom="http://www.w3.org/2005/Atom" xmlns:content="http://purl.org/rss/1.0/modules/content/" version="2.0">\<newline>'' @
       ''  <channel>\<newline>'' @
       ''    <title>pyOpenSci Tutorials</title>\<newline>'' @
       ''    <link>https://www.pyopensci.org/python-package-guide/tutorials/intro.html</link>\<newline>'' @
       ''    <atom:link href="https://www.pyopensci.org/python-package-guide/tutorials.rss" rel="self"/>\<newline>'' @
       ''    <description>A tutorial feed that lists metadata for the pyOpenSci Python packaging tutorials so we can automatically list them on our website.</description>\<newline>'' @
       ''    <language>en</language>\<newline>'' @
       ''    <lastBuildDate>Thu, 01 Jan 1970 00:00:00 GMT</lastBuildDate>\<newline>'' @
       ''\<newline>'' @
       ''  </channel>\<newline>'' @
       ''</rss>\<newline>'' @
       ''        '')\<close>
    by (simp add: RSSFeed_render_def sorted_reverse_def f RSSFeed_init_def import_module_def)
  have i: "feed_items_of example_platform w (example_app []) = Inr []" for w
    by (simp add: feed_items_of_def tutorials_of_def example_app_def)
  have o: "outdir (example_app []) = ''/out''"
    by (simp add: example_app_def)
  have w: "openable (example_world t) path" for t path
    by (simp add: example_world_def)
  show ?thesis
    by (simp add: default_build_date datetime_now_examples generate_tutorials_feed_def Let_def i r o w
        add_log_def write_file_def path_join_def)
qed

section \<open>Escaping in a rendered item\<close>

lemma str_replace_Nil: "str_replace c r [] = []"
  by (simp add: str_replace_def)

lemma str_replace_Cons: "str_replace c r (x # xs) = (if x = c then r else [x]) @ str_replace c r xs"
  by (simp add: str_replace_def)

lemma str_replace_append: "str_replace c r (xs @ ys) = str_replace c r xs @ str_replace c r ys"
  by (simp add: str_replace_def)

lemma escape_unquoted:
  "escape s False = str_replace CHR ''>'' ''&gt;'' (str_replace CHR ''<'' ''&lt;'' (str_replace CHR ''&'' ''&amp;'' s))"
  by (simp add: escape_def)

lemma escape_by_char: "escape s False = concat (map escape_char s)"
proof (induction s)
  case Nil
  show ?case by (simp add: escape_unquoted str_replace_Nil)
next
  case (Cons x xs)
  have "escape (x # xs) False = escape [x] False @ escape xs False"
    by (simp add: escape_unquoted str_replace_Cons str_replace_append str_replace_Nil)
  moreover have "escape [x] False = escape_char x"
    by (simp add: escape_unquoted str_replace_Cons str_replace_Nil escape_char_def)
  ultimately show ?case
    using Cons.IH by simp
qed

text \<open>
  Claim C6.  The title, the link, the description and the author of a rendered item are
  escaped character by character: \<open><\<close> becomes \<open>&lt;\<close>, \<open>&\<close> becomes \<open>&amp;\<close>, and
  the double quote stays as it is.  The \<open>guid\<close> element, marked \<open>isPermaLink="true"\<close>,
  holds the URL unchanged.  Rendering an item never fails.
\<close>

theorem item_render_escapes:
  \<open>escape s False = concat (map escape_char s) \<and>
   escape_char CHR ''<'' = ''&lt;'' \<and>
   escape_char CHR ''&'' = ''&amp;'' \<and>
   escape_char (CHR 0x22) = [CHR 0x22] \<and>
   RSSItem_render self = Inr (
     ''<item>\<newline>'' @
     ''  <title>'' @ concat (map escape_char (RSSItem.title self)) @ ''</title>\<newline>'' @
     ''  <link>'' @ concat (map escape_char (url self)) @ ''</link>\<newline>'' @
     ''  <description>'' @ concat (map escape_char (RSSItem.description self)) @ ''</description>\<newline>'' @
     ''  <author>'' @ concat (map escape_char (author self)) @ ''</author>\<newline>'' @
     ''  <guid isPermaLink="true">'' @ url self @ ''</guid>\<newline>'' @
     ''  <pubDate>'' @ format_timetuple_and_zone (date self) ''GMT'' @ ''</pubDate>\<newline>'' @
     ''</item>'')\<close>
  by (simp add: escape_by_char RSSItem_render_def format_rfc_2822_total format_timetuple_zone_free)
    (simp add: escape_char_def)

theorem item_render_escapes_witness:
  \<open>RSSItem_render \<lparr>RSSItem.title = ''a<b & "c"'', date = example_date 10 None,
       RSSItem.description = ''x > y'', url = ''https://example.org/?a=1&b="2"'', author = ''R&D''\<rparr> = Inr (
     ''<item>\<newline>'' @
     ''  <title>a&lt;b &amp; "c"</title>\<newline>'' @
     ''  <link>https://example.org/?a=1&amp;b="2"</link>\<newline>'' @
     ''  <description>x &gt; y</description>\<newline>'' @
     ''  <author>R&amp;D</author>\<newline>'' @
     ''  <guid isPermaLink="true">https://example.org/?a=1&b="2"</guid>\<newline>'' @
     ''  <pubDate>Mon, 15 Jan 2024 10:00:00 GMT</pubDate>\<newline>'' @
     ''</item>'')\<close>
proof -
  have f: "format_timetuple_and_zone (example_date 10 None) ''GMT'' = ''Mon, 15 Jan 2024 10:00:00 GMT''"
    using format_example [of None] by (simp add: format_rfc_2822_total format_timetuple_zone_free)
  from item_render_escapes [of "[]" "\<lparr>RSSItem.title = ''a<b & \"c\"'', date = example_date 10 None,
       RSSItem.description = ''x > y'', url = ''https://example.org/?a=1&b=\"2\"'', author = ''R&D''\<rparr>"]
  show ?thesis
    by (simp add: f escape_char_def)
qed

section \<open>Required metadata\<close>

text \<open>
  Claim C3.  When \<open>:og:title\<close> or \<open>:og:description\<close> is absent from the metadata,
  \<open>from_meta\<close> raises the \<open>KeyError\<close> of an absent key, the title's when the title is
  absent and the description's otherwise, whatever the rest of the metadata and the file
  system are.  When both are present and the date resolves, it returns the entry.
\<close>

theorem from_meta_required_fields:
  "(meta '':og:title'' = None \<longrightarrow>
      from_meta p w a page_name meta = Inl (KeyError '':og:title'')) \<and>
   (meta '':og:title'' \<noteq> None \<and> meta '':og:description'' = None \<longrightarrow>
      from_meta p w a page_name meta = Inl (KeyError '':og:description'')) \<and>
   (meta '':og:title'' = None \<or> meta '':og:description'' = None \<longrightarrow>
      (\<exists>k. from_meta p w a page_name meta = Inl (KeyError k) \<and> meta k = None \<and>
           (k = '':og:title'' \<or> k = '':og:description''))) \<and>
   (\<forall>t d dt. meta '':og:title'' = Some t \<and> meta '':og:description'' = Some d \<and>
        get_date_updated p w a page_name meta = Inr dt \<longrightarrow>
      from_meta p w a page_name meta =
        Inr \<lparr>RSSItem.title = t, date = dt, RSSItem.description = d,
             url = urljoin p (html_baseurl a) (get_target_uri a page_name),
             author = (case meta '':og:author'' of None \<Rightarrow> ''pyOpenSci'' | Some au \<Rightarrow> au)\<rparr>)"
  by (auto simp: from_meta_def Let_def split: option.splits)

theorem from_meta_required_fields_witness:
  "from_meta example_platform (example_world 0) (example_app []) ''tutorials/intro''
     (example_meta('':og:title'' := None)) = Inl (KeyError '':og:title'') \<and>
   from_meta example_platform (example_world 0) (example_app []) ''tutorials/intro''
     (example_meta('':og:description'' := None)) = Inl (KeyError '':og:description'') \<and>
   from_meta example_platform (example_world 0) (example_app []) ''tutorials/intro''
     (example_meta('':og:title'' := None, '':og:description'' := None)) = Inl (KeyError '':og:title'') \<and>
   from_meta example_platform (example_world 0) (example_app []) ''tutorials/intro'' example_meta =
     Inr (example_item ''Intro'' (example_date 10 None))"
proof -
  have g: "get_date_updated example_platform (example_world 0) (example_app []) ''tutorials/intro'' example_meta
           = Inr (example_date 10 None)"
    by (simp add: get_date_updated_def example_meta_def fromisoformat_example)
  from from_meta_required_fields
         [of "example_meta('':og:title'' := None)" example_platform "example_world 0" "example_app []" "''tutorials/intro''"]
       from_meta_required_fields
         [of "example_meta('':og:description'' := None)" example_platform "example_world 0" "example_app []" "''tutorials/intro''"]
       from_meta_required_fields
         [of "example_meta('':og:title'' := None, '':og:description'' := None)" example_platform "example_world 0" "example_app []" "''tutorials/intro''"]
       from_meta_required_fields
         [of example_meta example_platform "example_world 0" "example_app []" "''tutorials/intro''"] g
  show ?thesis
    by (simp add: example_meta_def example_item_def example_platform_def example_app_def)
qed

section \<open>The timestamp of an entry\<close>




section \<open>Rendering leaves the feed as it is\<close>

text \<open>
  Claim C10.  Whether \<open>render\<close> returns the document or raises, the feed object is the
  same afterwards: its items are in their input order and no other field has changed.
\<close>

theorem render_leaves_feed:
  "snd (RSSFeed_render self) = self \<and> items (snd (RSSFeed_render self)) = items self"
  by (simp add: RSSFeed_render_def Let_def split: sum.splits)

theorem render_leaves_feed_witness:
  "sorted_reverse [example_item ''Old'' (example_date 5 None), example_item ''New'' (example_date 10 None)] =
     Inr [example_item ''New'' (example_date 10 None), example_item ''Old'' (example_date 5 None)] \<and>
   items (snd (RSSFeed_render (RSSFeed_init (import_module example_platform (example_world 0))
     [example_item ''Old'' (example_date 5 None), example_item ''New'' (example_date 10 None)] None))) =
     [example_item ''Old'' (example_date 5 None), example_item ''New'' (example_date 10 None)]"
proof -
  have i: "instant (example_date 5 None) < instant (example_date 10 None)"
    by (simp add: instant_def example_date_def toordinal_def)
  have s: "sorted_reverse [example_item ''Old'' (example_date 5 None), example_item ''New'' (example_date 10 None)] =
     Inr [example_item ''New'' (example_date 10 None), example_item ''Old'' (example_date 5 None)]"
    using i by (simp add: sorted_reverse_def datetime_lt_def comparable_def example_item_def)
      (simp add: example_date_def)
  from render_leaves_feed [of "RSSFeed_init (import_module example_platform (example_world 0))
     [example_item ''Old'' (example_date 5 None), example_item ''New'' (example_date 10 None)] None"] s
  show ?thesis
    by (simp add: RSSFeed_init_def)
qed

section \<open>The order of points in time is the order of the fields\<close>

lemma days_before_year_Suc:
  assumes "1 \<le> y"
  shows "days_before_year (Suc y) = days_before_year y + days_in_year y"
proof -
  from assms obtain k where y: "y = Suc k"
    by (cases y) auto
  define a b c n where "a = k div 4" and "b = k div 100" and "c = k div 400" and "n = k * 365"
  have le: "b \<le> a"
    unfolding a_def b_def by (rule div_le_mono2) simp_all
  have d1: "Suc k mod 400 = 0 \<Longrightarrow> Suc k mod 100 = 0"
    by presburger
  have d2: "Suc k mod 100 = 0 \<Longrightarrow> Suc k mod 4 = 0"
    by presburger
  have A: "Suc k div 4 = (if Suc k mod 4 = 0 then Suc a else a)"
    and B: "Suc k div 100 = (if Suc k mod 100 = 0 then Suc b else b)"
    and C: "Suc k div 400 = (if Suc k mod 400 = 0 then Suc c else c)"
    by (simp_all add: a_def b_def c_def div_Suc)
  have N: "Suc k * 365 = n + 365"
    by (simp add: n_def)
  have s: "days_before_year (Suc (Suc k)) = Suc k * 365 + Suc k div 4 - Suc k div 100 + Suc k div 400"
    by (simp add: days_before_year_def)
  have t: "days_before_year (Suc k) = n + a - b + c"
    by (simp add: days_before_year_def a_def b_def c_def n_def)
  have l: "days_in_year (Suc k) =
      (if Suc k mod 4 = 0 \<and> (Suc k mod 100 \<noteq> 0 \<or> Suc k mod 400 = 0) then 366 else 365)"
    by (simp add: days_in_year_def is_leap_def)
  show ?thesis
    unfolding y s t l A B C N
    using le d1 d2 by (cases "Suc k mod 4 = 0"; cases "Suc k mod 100 = 0"; cases "Suc k mod 400 = 0") simp_all
qed

lemma days_before_year_mono:
  "1 \<le> y1 \<Longrightarrow> y1 < y2 \<Longrightarrow> days_before_year y1 + days_in_year y1 \<le> days_before_year y2"
proof (induction y2)
  case 0
  then show ?case by simp
next
  case (Suc y2)
  show ?case
  proof (cases "y1 = y2")
    case True
    with Suc.prems show ?thesis
      by (simp add: days_before_year_Suc)
  next
    case False
    with Suc have "days_before_year y1 + days_in_year y1 \<le> days_before_year y2"
      by simp
    moreover from Suc.prems False have "1 \<le> y2"
      by simp
    then have "days_before_year (Suc y2) = days_before_year y2 + days_in_year y2"
      by (rule days_before_year_Suc)
    ultimately show ?thesis
      by simp
  qed
qed

lemma days_before_month_Suc:
  assumes "1 \<le> m" and "m \<le> 11"
  shows "days_before_month y (Suc m) = days_before_month y m + days_in_month y m"
proof -
  from assms have "m = 1 \<or> m = 2 \<or> m = 3 \<or> m = 4 \<or> m = 5 \<or> m = 6 \<or> m = 7 \<or> m = 8 \<or>
      m = 9 \<or> m = 10 \<or> m = 11"
    by arith
  then show ?thesis
    by (elim disjE)
      (simp_all add: days_before_month_def days_in_month_def DAYS_BEFORE_MONTH_def DAYS_IN_MONTH_def
        eval_nat_numeral)
qed

lemma days_before_month_mono:
  "1 \<le> m1 \<Longrightarrow> m1 < m2 \<Longrightarrow> m2 \<le> 12 \<Longrightarrow>
   days_before_month y m1 + days_in_month y m1 \<le> days_before_month y m2"
proof (induction m2)
  case 0
  then show ?case by simp
next
  case (Suc m2)
  show ?case
  proof (cases "m1 = m2")
    case True
    with Suc.prems show ?thesis
      by (simp add: days_before_month_Suc)
  next
    case False
    with Suc have "days_before_month y m1 + days_in_month y m1 \<le> days_before_month y m2"
      by simp
    moreover from Suc.prems False have "days_before_month y (Suc m2) = days_before_month y m2 + days_in_month y m2"
      by (intro days_before_month_Suc) simp_all
    ultimately show ?thesis
      by simp
  qed
qed

lemma day_of_year_le:
  assumes "1 \<le> m" and "m \<le> 12" and "d \<le> days_in_month y m"
  shows "days_before_month y m + d \<le> days_in_year y"
proof (cases "m = 12")
  case True
  have "days_before_month y 12 + days_in_month y 12 = days_in_year y"
    by (simp add: days_before_month_def days_in_month_def DAYS_BEFORE_MONTH_def DAYS_IN_MONTH_def
        days_in_year_def)
  with True assms show ?thesis
    by simp
next
  case False
  with assms have "days_before_month y m + days_in_month y m \<le> days_before_month y 12"
    by (intro days_before_month_mono) simp_all
  moreover have "days_before_month y 12 \<le> days_in_year y"
    by (simp add: days_before_month_def DAYS_BEFORE_MONTH_def days_in_year_def)
  ultimately show ?thesis
    using assms by simp
qed

lemma ymd2ord_less:
  assumes "1 \<le> y1" and "1 \<le> m1" and "m1 \<le> 12" and "d1 \<le> days_in_month y1 m1"
    and "1 \<le> m2" and "m2 \<le> 12" and "1 \<le> d2"
    and "y1 < y2 \<or> (y1 = y2 \<and> (m1 < m2 \<or> (m1 = m2 \<and> d1 < d2)))"
  shows "ymd2ord y1 m1 d1 < ymd2ord y2 m2 d2"
proof -
  consider "y1 < y2" | "y1 = y2" "m1 < m2" | "y1 = y2" "m1 = m2" "d1 < d2"
    using assms(8) by blast
  then show ?thesis
  proof cases
    case 1
    from assms have "days_before_month y1 m1 + d1 \<le> days_in_year y1"
      by (intro day_of_year_le)
    moreover from assms(1) 1 have "days_before_year y1 + days_in_year y1 \<le> days_before_year y2"
      by (rule days_before_year_mono)
    ultimately show ?thesis
      using assms(7) by (simp add: ymd2ord_def)
  next
    case 2
    with assms have "days_before_month y1 m1 + days_in_month y1 m1 \<le> days_before_month y1 m2"
      by (intro days_before_month_mono)
    with 2 assms show ?thesis
      by (simp add: ymd2ord_def)
  next
    case 3
    then show ?thesis
      by (simp add: ymd2ord_def)
  qed
qed


lemma time_of_day_less:
  assumes "minute x < 60" and "second x < 60" and "minute y < 60" and "second y < 60"
  shows "hour x * 3600 + minute x * 60 + second x < hour y * 3600 + minute y * 60 + second y \<longleftrightarrow>
      hour x < hour y \<or> (hour x = hour y \<and>
        (minute x < minute y \<or> (minute x = minute y \<and> second x < second y)))"
  using assms by auto

lemma instant_less_iff_fields:
  assumes "valid_datetime a" and "valid_datetime b" and "tzinfo a = tzinfo b"
  shows "instant a < instant b \<longleftrightarrow> fields_lt a b"
proof -
  define ta where "ta = hour a * 3600 + minute a * 60 + second a"
  define tb where "tb = hour b * 3600 + minute b * 60 + second b"
  from assms(1) have ra: "ta < 86400" "microsecond a < 1000000"
    by (simp_all add: valid_datetime_def ta_def)
  from assms(2) have rb: "tb < 86400" "microsecond b < 1000000"
    by (simp_all add: valid_datetime_def tb_def)
  have ia: "instant a = (int (toordinal a) * 86400 + int ta) * 1000000 + int (microsecond a)
              - (case tzinfo a of None \<Rightarrow> 0 | Some z \<Rightarrow> utcoffset z)"
    by (simp add: instant_def ta_def)
  have ib: "instant b = (int (toordinal b) * 86400 + int tb) * 1000000 + int (microsecond b)
              - (case tzinfo a of None \<Rightarrow> 0 | Some z \<Rightarrow> utcoffset z)"
    by (simp add: instant_def tb_def assms(3))
  have i: "instant a < instant b \<longleftrightarrow>
      toordinal a < toordinal b \<or> (toordinal a = toordinal b \<and>
        (ta < tb \<or> (ta = tb \<and> microsecond a < microsecond b)))"
    unfolding ia ib using ra rb by auto
  have t: "ta < tb \<longleftrightarrow>
      hour a < hour b \<or> (hour a = hour b \<and>
        (minute a < minute b \<or> (minute a = minute b \<and> second a < second b)))"
    and t': "tb < ta \<longleftrightarrow>
      hour b < hour a \<or> (hour b = hour a \<and>
        (minute b < minute a \<or> (minute b = minute a \<and> second b < second a)))"
    unfolding ta_def tb_def using assms(1,2)
    by (simp_all only: valid_datetime_def time_of_day_less)
  have te: "ta = tb \<longleftrightarrow> hour a = hour b \<and> minute a = minute b \<and> second a = second b"
  proof
    assume "ta = tb"
    then have "\<not> ta < tb" and "\<not> tb < ta"
      by simp_all
    then show "hour a = hour b \<and> minute a = minute b \<and> second a = second b"
      unfolding t t' by (metis nat_neq_iff)
  next
    assume "hour a = hour b \<and> minute a = minute b \<and> second a = second b"
    then show "ta = tb"
      by (simp add: ta_def tb_def)
  qed
  let ?d = "\<lambda>x y. year x < year y \<or> (year x = year y \<and>
      (month x < month y \<or> (month x = month y \<and> day x < day y)))"
  have lt: "toordinal x < toordinal y" if "valid_datetime x" "valid_datetime y" "?d x y" for x y
    unfolding toordinal_def using that by (intro ymd2ord_less) (simp_all add: valid_datetime_def)
  have tri: "?d a b \<or> ?d b a \<or> (year a = year b \<and> month a = month b \<and> day a = day b)"
    by (metis nat_neq_iff)
  have o: "toordinal a < toordinal b \<longleftrightarrow> ?d a b"
  proof
    assume l: "toordinal a < toordinal b"
    show "?d a b"
    proof (rule ccontr)
      assume n: "\<not> ?d a b"
      with tri consider "?d b a" | "year a = year b \<and> month a = month b \<and> day a = day b"
        by blast
      then show False
      proof cases
        case 1
        with lt [of b a] assms(1,2) l show False by simp
      next
        case 2
        with l show False by (simp add: toordinal_def)
      qed
    qed
  next
    assume "?d a b"
    with lt [of a b] assms(1,2) show "toordinal a < toordinal b" by simp
  qed
  have oe: "toordinal a = toordinal b \<longleftrightarrow> year a = year b \<and> month a = month b \<and> day a = day b"
  proof
    assume e: "toordinal a = toordinal b"
    from tri consider "?d a b" | "?d b a" | "year a = year b \<and> month a = month b \<and> day a = day b"
      by blast
    then show "year a = year b \<and> month a = month b \<and> day a = day b"
    proof cases
      case 1
      with lt [of a b] assms(1,2) e show ?thesis by simp
    next
      case 2
      with lt [of b a] assms(1,2) e show ?thesis by simp
    next
      case 3
      then show ?thesis .
    qed
  next
    assume "year a = year b \<and> month a = month b \<and> day a = day b"
    then show "toordinal a = toordinal b"
      by (simp add: toordinal_def)
  qed
  show ?thesis
    unfolding i t te o oe fields_lt_def by blast
qed

section \<open>The order of the items\<close>

lemma datetime_lt_True:
  "datetime_lt a b = Inr True \<longleftrightarrow> comparable a b \<and> instant a < instant b"
  by (simp add: datetime_lt_def)

lemma mset_insort_reverse: "mset (insort_reverse x ys) = add_mset x (mset ys)"
  by (induction ys) simp_all

lemma set_insort_reverse: "set (insort_reverse x ys) = insert x (set ys)"
  by (induction ys) auto

lemma filter_insort_reverse:
  "filter (\<lambda>i. instant (date i) = k) (insort_reverse x ys) = filter (\<lambda>i. instant (date i) = k) (x # ys)"
  by (induction ys) (auto simp: datetime_lt_True)

lemma newer_first_insort_reverse:
  assumes "\<forall>y\<in>set ys. comparable (date x) (date y)" and "newer_first ys"
  shows "newer_first (insort_reverse x ys)"
  using assms
proof (induction ys)
  case Nil
  show ?case by (simp add: newer_first_def)
next
  case (Cons y ys)
  from Cons.prems have c: "comparable (date x) (date y)"
    and tl: "\<forall>z\<in>set ys. comparable (date x) (date z)"
    and le: "\<forall>z\<in>set ys. instant (date z) \<le> instant (date y)"
    and s: "newer_first ys"
    by (simp_all add: newer_first_def)
  show ?case
  proof (cases "instant (date x) < instant (date y)")
    case True
    from Cons.IH [OF tl s] have "newer_first (insort_reverse x ys)" .
    with True c le show ?thesis
      by (auto simp: newer_first_def datetime_lt_True set_insort_reverse)
  next
    case False
    with c le Cons.prems(2) show ?thesis
      by (fastforce simp: newer_first_def datetime_lt_True)
  qed
qed

lemma mset_foldr_insort: "mset (foldr insort_reverse xs []) = mset xs"
  by (induction xs) (simp_all add: mset_insort_reverse)

lemma filter_foldr_insort:
  "filter (\<lambda>i. instant (date i) = k) (foldr insort_reverse xs []) = filter (\<lambda>i. instant (date i) = k) xs"
  by (induction xs) (simp_all add: filter_insort_reverse)

lemma newer_first_foldr_insort:
  assumes "\<forall>a\<in>set xs. \<forall>b\<in>set xs. comparable (date a) (date b)"
  shows "newer_first (foldr insort_reverse xs [])"
  using assms
proof (induction xs)
  case Nil
  show ?case by (simp add: newer_first_def)
next
  case (Cons x xs)
  have "set (foldr insort_reverse xs []) = set xs"
    using mset_foldr_insort [of xs] by (metis set_mset_mset)
  with Cons show ?case
    by (simp add: newer_first_insort_reverse)
qed

lemma sorted_reverse_cases:
  "sorted_reverse xs =
     (if (\<forall>i\<in>set xs. tzinfo (date i) = None) \<or> (\<forall>i\<in>set xs. tzinfo (date i) \<noteq> None)
      then Inr (foldr insort_reverse xs []) else Inl TypeError)"
  by (simp add: sorted_reverse_def list_all_iff)

lemma collect_renders:
  "\<exists>frags. collect (map RSSItem_render ys) = Inr frags \<and> list_all2 (\<lambda>i f. RSSItem_render i = Inr f) ys frags"
proof (induction ys)
  case Nil
  show ?case by simp
next
  case (Cons y ys)
  then obtain frags where "collect (map RSSItem_render ys) = Inr frags"
    and "list_all2 (\<lambda>i f. RSSItem_render i = Inr f) ys frags"
    by blast
  moreover obtain f where "RSSItem_render y = Inr f"
    by (simp add: RSSItem_render_def format_rfc_2822_total)
  ultimately show ?case
    by simp
qed

text \<open>
  Claim C4, as stated, fails.  A feed with one entry whose \<open>date_updated\<close> has no offset
  and one whose \<open>date_updated\<close> has one cannot be sorted: comparing a naive with an aware
  datetime raises \<open>TypeError\<close>, and so does \<open>render\<close>, in either input order.
\<close>

theorem render_mixed_dates_raises:
  "fromisoformat ''2024-01-15T10:00:00'' = Inr (example_date 10 None) \<and>
   fromisoformat ''2024-01-15T05:00:00Z'' = Inr (example_date 5 (Some UTC)) \<and>
   fst (RSSFeed_render (RSSFeed_init (import_module example_platform (example_world 0))
     [example_item ''A'' (example_date 10 None), example_item ''B'' (example_date 5 (Some UTC))] None)) =
     Inl TypeError \<and>
   fst (RSSFeed_render (RSSFeed_init (import_module example_platform (example_world 0))
     [example_item ''B'' (example_date 5 (Some UTC)), example_item ''A'' (example_date 10 None)] None)) =
     Inl TypeError"
proof -
  have p: "fromisoformat ''2024-01-15T05:00:00Z'' = Inr (example_date 5 (Some UTC))"
    by (simp add: parse_defs calendar_defs example_date_def)
  have s: "sorted_reverse [example_item ''A'' (example_date 10 None), example_item ''B'' (example_date 5 (Some UTC))] = Inl TypeError"
    "sorted_reverse [example_item ''B'' (example_date 5 (Some UTC)), example_item ''A'' (example_date 10 None)] = Inl TypeError"
    by (simp_all add: sorted_reverse_def example_item_def example_date_def)
  show ?thesis
    by (simp add: fromisoformat_example p RSSFeed_render_def RSSFeed_init_def s)
qed

text \<open>
  Claim C4, amended.  When the timestamps of the items are all naive or all aware,
  \<open>render\<close> returns the document whose items are the input items, each once, the later
  point in time first, and the items of one point in time (in particular those of identical
  timestamps) in their input order.  When the list has both kinds, \<open>render\<close> raises
  \<open>TypeError\<close>.
\<close>

theorem render_sorts_newest_first:
  \<open>((\<forall>i\<in>set (items self). tzinfo (date i) = None) \<or> (\<forall>i\<in>set (items self). tzinfo (date i) \<noteq> None) \<longrightarrow>
      (\<exists>ys frags.
         sorted_reverse (items self) = Inr ys \<and>
         mset ys = mset (items self) \<and>
         newer_first ys \<and>
         (\<forall>k. filter (\<lambda>i. instant (date i) = k) ys = filter (\<lambda>i. instant (date i) = k) (items self)) \<and>
         (\<forall>d. filter (\<lambda>i. date i = d) ys = filter (\<lambda>i. date i = d) (items self)) \<and>
         list_all2 (\<lambda>i f. RSSItem_render i = Inr f) ys frags \<and>
         fst (RSSFeed_render self) = Inr (
           ''<?xml version='1.0' encoding='UTF-8'?>\<newline>'' @
           ''<rss xmlns:atom="http://www.w3.org/2005/Atom" xmlns:content="http://purl.org/rss/1.0/modules/content/" version="2.0">\<newline>'' @
           ''  <channel>\<newline>'' @
           ''    <title>'' @ RSSFeed.title self @ ''</title>\<newline>'' @
           ''    <link>'' @ link self @ ''</link>\<newline>'' @
           ''    <atom:link href="'' @ self_link self @ ''" rel="self"/>\<newline>'' @
           ''    <description>'' @ RSSFeed.description self @ ''</description>\<newline>'' @
           ''    <language>'' @ language self @ ''</language>\<newline>'' @
           ''    <lastBuildDate>'' @ format_timetuple_and_zone (last_build_date self) ''GMT'' @ ''</lastBuildDate>\<newline>'' @
           join ''\<newline>'' frags @ ''\<newline>'' @
           ''  </channel>\<newline>'' @
           ''</rss>\<newline>'' @
           ''        ''))) \<and>
   (\<not> ((\<forall>i\<in>set (items self). tzinfo (date i) = None) \<or> (\<forall>i\<in>set (items self). tzinfo (date i) \<noteq> None)) \<longrightarrow>
      fst (RSSFeed_render self) = Inl TypeError)\<close>
proof (intro conjI impI)
  assume h: "(\<forall>i\<in>set (items self). tzinfo (date i) = None) \<or> (\<forall>i\<in>set (items self). tzinfo (date i) \<noteq> None)"
  define ys where "ys = foldr insort_reverse (items self) []"
  have s: "sorted_reverse (items self) = Inr ys"
    using h by (simp add: sorted_reverse_cases ys_def)
  from h have c: "\<forall>a\<in>set (items self). \<forall>b\<in>set (items self). comparable (date a) (date b)"
    by (auto simp: comparable_def)
  have n: "newer_first ys"
    unfolding ys_def using c by (rule newer_first_foldr_insort)
  have k: "filter (\<lambda>i. instant (date i) = k) ys = filter (\<lambda>i. instant (date i) = k) (items self)" for k
    by (simp add: ys_def filter_foldr_insort)
  have d: "filter (\<lambda>i. date i = d) ys = filter (\<lambda>i. date i = d) (items self)" for d
  proof -
    have "filter (\<lambda>i. date i = d) zs = filter (\<lambda>i. date i = d) (filter (\<lambda>i. instant (date i) = instant d) zs)" for zs
      by (induction zs) auto
    with k [of "instant d"] show ?thesis
      by metis
  qed
  obtain frags where f: "collect (map RSSItem_render ys) = Inr frags"
    and l: "list_all2 (\<lambda>i f. RSSItem_render i = Inr f) ys frags"
    using collect_renders by blast
  have r: \<open>fst (RSSFeed_render self) = Inr (
           ''<?xml version='1.0' encoding='UTF-8'?>\<newline>'' @
           ''<rss xmlns:atom="http://www.w3.org/2005/Atom" xmlns:content="http://purl.org/rss/1.0/modules/content/" version="2.0">\<newline>'' @
           ''  <channel>\<newline>'' @
           ''    <title>'' @ RSSFeed.title self @ ''</title>\<newline>'' @
           ''    <link>'' @ link self @ ''</link>\<newline>'' @
           ''    <atom:link href="'' @ self_link self @ ''" rel="self"/>\<newline>'' @
           ''    <description>'' @ RSSFeed.description self @ ''</description>\<newline>'' @
           ''    <language>'' @ language self @ ''</language>\<newline>'' @
           ''    <lastBuildDate>'' @ format_timetuple_and_zone (last_build_date self) ''GMT'' @ ''</lastBuildDate>\<newline>'' @
           join ''\<newline>'' frags @ ''\<newline>'' @
           ''  </channel>\<newline>'' @
           ''</rss>\<newline>'' @
           ''        '')\<close>
    by (simp add: RSSFeed_render_def s f format_rfc_2822_total format_timetuple_zone_free)
  from s n k d l r mset_foldr_insort [of "items self"]
  show \<open>\<exists>ys frags.
         sorted_reverse (items self) = Inr ys \<and>
         mset ys = mset (items self) \<and>
         newer_first ys \<and>
         (\<forall>k. filter (\<lambda>i. instant (date i) = k) ys = filter (\<lambda>i. instant (date i) = k) (items self)) \<and>
         (\<forall>d. filter (\<lambda>i. date i = d) ys = filter (\<lambda>i. date i = d) (items self)) \<and>
         list_all2 (\<lambda>i f. RSSItem_render i = Inr f) ys frags \<and>
         fst (RSSFeed_render self) = Inr (
           ''<?xml version='1.0' encoding='UTF-8'?>\<newline>'' @
           ''<rss xmlns:atom="http://www.w3.org/2005/Atom" xmlns:content="http://purl.org/rss/1.0/modules/content/" version="2.0">\<newline>'' @
           ''  <channel>\<newline>'' @
           ''    <title>'' @ RSSFeed.title self @ ''</title>\<newline>'' @
           ''    <link>'' @ link self @ ''</link>\<newline>'' @
           ''    <atom:link href="'' @ self_link self @ ''" rel="self"/>\<newline>'' @
           ''    <description>'' @ RSSFeed.description self @ ''</description>\<newline>'' @
           ''    <language>'' @ language self @ ''</language>\<newline>'' @
           ''    <lastBuildDate>'' @ format_timetuple_and_zone (last_build_date self) ''GMT'' @ ''</lastBuildDate>\<newline>'' @
           join ''\<newline>'' frags @ ''\<newline>'' @
           ''  </channel>\<newline>'' @
           ''</rss>\<newline>'' @
           ''        '')\<close>
    unfolding ys_def by blast
next
  assume "\<not> ((\<forall>i\<in>set (items self). tzinfo (date i) = None) \<or> (\<forall>i\<in>set (items self). tzinfo (date i) \<noteq> None))"
  then have "sorted_reverse (items self) = Inl TypeError"
    by (simp add: sorted_reverse_cases)
  then show "fst (RSSFeed_render self) = Inl TypeError"
    by (simp add: RSSFeed_render_def)
qed

theorem render_sorts_newest_first_witness:
  "sorted_reverse
     [example_item ''B'' (example_date 5 None), example_item ''A'' (example_date 10 None),
      example_item ''C'' (example_date 10 None)] =
     Inr [example_item ''A'' (example_date 10 None), example_item ''C'' (example_date 10 None),
          example_item ''B'' (example_date 5 None)] \<and>
   newer_first
     [example_item ''A'' (example_date 10 None), example_item ''C'' (example_date 10 None),
      example_item ''B'' (example_date 5 None)] \<and>
   (\<exists>doc. fst (RSSFeed_render (RSSFeed_init (import_module example_platform (example_world 0))
     [example_item ''B'' (example_date 5 None), example_item ''A'' (example_date 10 None),
      example_item ''C'' (example_date 10 None)] None)) = Inr doc)"
proof -
  define feed where "feed = RSSFeed_init (import_module example_platform (example_world 0))
     [example_item ''B'' (example_date 5 None), example_item ''A'' (example_date 10 None),
      example_item ''C'' (example_date 10 None)] None"
  have it: "items feed = [example_item ''B'' (example_date 5 None), example_item ''A'' (example_date 10 None),
      example_item ''C'' (example_date 10 None)]"
    by (simp add: feed_def RSSFeed_init_def)
  have h: "(\<forall>i\<in>set (items feed). tzinfo (date i) = None) \<or> (\<forall>i\<in>set (items feed). tzinfo (date i) \<noteq> None)"
    by (simp add: it example_item_def example_date_def)
  have i: "instant (example_date 5 None) < instant (example_date 10 None)"
    by (simp add: instant_def example_date_def toordinal_def)
  have s: "sorted_reverse (items feed) =
     Inr [example_item ''A'' (example_date 10 None), example_item ''C'' (example_date 10 None),
          example_item ''B'' (example_date 5 None)]"
    using i by (simp add: it sorted_reverse_def datetime_lt_def comparable_def example_item_def)
      (simp add: example_date_def)
  from render_sorts_newest_first [of feed] h
  obtain ys doc where "sorted_reverse (items feed) = Inr ys" and "newer_first ys"
    and "fst (RSSFeed_render feed) = Inr doc"
    by blast
  with s have "newer_first [example_item ''A'' (example_date 10 None), example_item ''C'' (example_date 10 None),
          example_item ''B'' (example_date 5 None)]"
    and "\<exists>doc. fst (RSSFeed_render feed) = Inr doc"
    by auto
  with s show ?thesis
    unfolding it unfolding feed_def by simp
qed

section \<open>The build step\<close>

lemma startswith_prefix: "startswith s p \<longleftrightarrow> prefix p s"
proof
  assume "startswith s p"
  then have "take (length p) s = p"
    by (simp add: startswith_def)
  then have "s = p @ drop (length p) s"
    by (metis append_take_drop_id)
  then show "prefix p s"
    by (rule prefixI)
next
  assume "prefix p s"
  then obtain zs where "s = p @ zs"
    by (auto simp: prefix_def)
  then show "startswith s p"
    by (simp add: startswith_def)
qed

lemma get_date_updated_add_log:
  "get_date_updated p (add_log w r) a t meta = get_date_updated p w a t meta"
  by (simp add: get_date_updated_def add_log_def Let_def split: option.splits)

lemma from_meta_add_log: "from_meta p (add_log w r) a t meta = from_meta p w a t meta"
  by (simp add: from_meta_def get_date_updated_add_log split: option.splits)

lemma feed_items_add_log: "feed_items_of p (add_log w r) a = feed_items_of p w a"
  by (simp add: feed_items_of_def from_meta_add_log cong: option.case_cong)

lemma collect_Inl: "collect rs = Inl e \<Longrightarrow> Inl e \<in> set rs"
  by (induction rs) (auto split: sum.splits)

lemma collect_Inr_none_fails: "collect rs = Inr vs \<Longrightarrow> Inl e \<notin> set rs"
  by (induction rs arbitrary: vs) (auto split: sum.splits)

lemma collect_Inr_all2: "collect (map f ts) = Inr vs \<Longrightarrow> list_all2 (\<lambda>t v. f t = Inr v) ts vs"
  by (induction ts arbitrary: vs) (auto split: sum.splits)

lemma tutorials_have_metadata:
  "t \<in> set (tutorials_of a) \<Longrightarrow> \<exists>meta. map_of (metadata a) t = Some meta"
proof -
  assume "t \<in> set (tutorials_of a)"
  then have "t \<in> fst ` set (metadata a)"
    by (auto simp: tutorials_of_def)
  then have "map_of (metadata a) t \<noteq> None"
    by (simp add: map_of_eq_None_iff)
  then show ?thesis
    by blast
qed

text \<open>
  Claim C7.  When \<open>from_meta\<close> raises for a selected page, the build step raises the
  exception of such a page.  It has then logged its first message and done nothing else:
  the files are what they were, so no feed has been written.
\<close>

theorem failed_entry_aborts_build:
  assumes "t \<in> set (tutorials_of a)"
    and "map_of (metadata a) t = Some meta"
    and "from_meta p w a t meta = Inl e0"
  shows "\<exists>e t' meta'.
           fst (generate_tutorials_feed p m a w) = Some e \<and>
           t' \<in> set (tutorials_of a) \<and> map_of (metadata a) t' = Some meta' \<and>
           from_meta p w a t' meta' = Inl e \<and>
           files (snd (generate_tutorials_feed p m a w)) = files w \<and>
           log (snd (generate_tutorials_feed p m a w)) = log w @ [Info ''Generating RSS feed for tutorials'']"
proof -
  let ?f = "\<lambda>t. case map_of (metadata a) t of None \<Rightarrow> Inl (KeyError t) | Some meta \<Rightarrow> from_meta p w a t meta"
  have "Inl e0 \<in> set (map ?f (tutorials_of a))"
    using assms by force
  then have "feed_items_of p w a \<noteq> Inr vs" for vs
    unfolding feed_items_of_def using collect_Inr_none_fails by blast
  then obtain e where e: "feed_items_of p w a = Inl e"
    by (cases "feed_items_of p w a") auto
  then have "Inl e \<in> set (map ?f (tutorials_of a))"
    unfolding feed_items_of_def by (rule collect_Inl)
  then obtain t' where t': "t' \<in> set (tutorials_of a)" and f: "?f t' = Inl e"
    by auto
  from tutorials_have_metadata [OF t'] obtain meta' where m: "map_of (metadata a) t' = Some meta'"
    by blast
  with f have "from_meta p w a t' meta' = Inl e"
    by simp
  moreover have "generate_tutorials_feed p m a w =
      (Some e, add_log w (Info ''Generating RSS feed for tutorials''))"
    by (simp add: generate_tutorials_feed_def Let_def feed_items_add_log e)
  ultimately show ?thesis
    using t' m by (auto simp: add_log_def)
qed

theorem failed_entry_aborts_build_witness:
  "generate_tutorials_feed example_platform (import_module example_platform (example_world 0))
     (example_app [(''tutorials/intro'', example_meta),
                   (''tutorials/draft'', example_meta('':og:description'' := None))])
     (example_world 3600000000) =
     (Some (KeyError '':og:description''),
      add_log (example_world 3600000000) (Info ''Generating RSS feed for tutorials'')) \<and>
   files (add_log (example_world 3600000000) (Info ''Generating RSS feed for tutorials'')) ''/out/tutorials.rss'' = None"
proof -
  define a where "a = example_app [(''tutorials/intro'', example_meta),
                   (''tutorials/draft'', example_meta('':og:description'' := None))]"
  have md: "metadata a = [(''tutorials/intro'', example_meta),
                   (''tutorials/draft'', example_meta('':og:description'' := None))]"
    by (simp add: a_def example_app_def)
  have t: "''tutorials/draft'' \<in> set (tutorials_of a)"
    by (simp add: tutorials_of_def md startswith_def)
  have m: "map_of (metadata a) ''tutorials/draft'' = Some (example_meta('':og:description'' := None))"
    by (simp add: md)
  have f: "from_meta example_platform (example_world 3600000000) a ''tutorials/draft''
             (example_meta('':og:description'' := None)) = Inl (KeyError '':og:description'')"
    by (simp add: from_meta_def example_meta_def)
  have i: "feed_items_of example_platform (example_world 3600000000) a = Inl (KeyError '':og:description'')"
    by (simp add: feed_items_of_def tutorials_of_def md startswith_def from_meta_def
        get_date_updated_def fromisoformat_example example_meta_def)
  from failed_entry_aborts_build [OF t m f, of "import_module example_platform (example_world 0)"]
  have "files (snd (generate_tutorials_feed example_platform (import_module example_platform (example_world 0)) a
          (example_world 3600000000))) = files (example_world 3600000000)"
    by blast
  moreover have "generate_tutorials_feed example_platform (import_module example_platform (example_world 0)) a
          (example_world 3600000000) =
       (Some (KeyError '':og:description''),
        add_log (example_world 3600000000) (Info ''Generating RSS feed for tutorials''))"
    by (simp add: generate_tutorials_feed_def Let_def feed_items_add_log i)
  ultimately show ?thesis
    unfolding a_def by (simp add: example_world_def)
qed

lemma files_add_log: "files (add_log w r) = files w"
  by (simp add: add_log_def)

lemma openable_add_log: "openable (add_log w r) = openable w"
  by (simp add: add_log_def)

lemma files_write_file:
  "files (write_file w path text) = (files w)(path \<mapsto> \<lparr>st_mtime = clock w, content = text\<rparr>)"
  by (simp add: write_file_def)

text \<open>
  Claim C9.  The pages of the feed are the page names of the metadata that start with
  \<open>tutorials/\<close>, in the order of the metadata: a name is selected exactly when it is a
  page with that prefix.  The entries are built from the selected pages, one from each and
  in that order, and when the build step succeeds the file holds the rendering of the feed
  of exactly these entries.
\<close>

theorem feed_selects_tutorials:
  "tutorials_of a = filter (prefix ''tutorials/'') (map fst (metadata a)) \<and>
   (\<forall>t. t \<in> set (tutorials_of a) \<longleftrightarrow> t \<in> fst ` set (metadata a) \<and> prefix ''tutorials/'' t) \<and>
   (\<forall>its. feed_items_of p w a = Inr its \<longrightarrow>
      list_all2 (\<lambda>t it. \<exists>meta. map_of (metadata a) t = Some meta \<and> from_meta p w a t meta = Inr it)
        (tutorials_of a) its) \<and>
   (fst (generate_tutorials_feed p m a w) = None \<longrightarrow>
      (\<exists>its doc. feed_items_of p w a = Inr its \<and>
         fst (RSSFeed_render (RSSFeed_init m its None)) = Inr doc \<and>
         map_option content (files (snd (generate_tutorials_feed p m a w)) (outdir a @ ''/tutorials.rss'')) = Some doc))"
proof (intro conjI allI impI)
  show sel: "tutorials_of a = filter (prefix ''tutorials/'') (map fst (metadata a))"
    by (simp add: tutorials_of_def startswith_prefix)
  show "t \<in> set (tutorials_of a) \<longleftrightarrow> t \<in> fst ` set (metadata a) \<and> prefix ''tutorials/'' t" for t
    by (auto simp: sel)
  show "list_all2 (\<lambda>t it. \<exists>meta. map_of (metadata a) t = Some meta \<and> from_meta p w a t meta = Inr it)
          (tutorials_of a) its"
    if "feed_items_of p w a = Inr its" for its
  proof -
    from that have "list_all2 (\<lambda>t v. (case map_of (metadata a) t of None \<Rightarrow> Inl (KeyError t)
                       | Some meta \<Rightarrow> from_meta p w a t meta) = Inr v) (tutorials_of a) its"
      unfolding feed_items_of_def by (rule collect_Inr_all2)
    then show ?thesis
      by (rule list_all2_mono) (auto split: option.splits)
  qed
  show "\<exists>its doc. feed_items_of p w a = Inr its \<and>
         fst (RSSFeed_render (RSSFeed_init m its None)) = Inr doc \<and>
         map_option content (files (snd (generate_tutorials_feed p m a w)) (outdir a @ ''/tutorials.rss'')) = Some doc"
    if "fst (generate_tutorials_feed p m a w) = None"
    using that
    by (auto simp: generate_tutorials_feed_def Let_def feed_items_add_log path_join_def
        files_add_log files_write_file split: sum.splits if_splits)
qed

theorem feed_selects_tutorials_witness:
  "tutorials_of (example_app [(''index'', Map.empty), (''tutorials/intro'', example_meta),
                              (''tutorials'', Map.empty)]) = [''tutorials/intro''] \<and>
   feed_items_of example_platform (example_world 3600000000)
     (example_app [(''index'', Map.empty), (''tutorials/intro'', example_meta), (''tutorials'', Map.empty)]) =
     Inr [example_item ''Intro'' (example_date 10 None)] \<and>
   fst (generate_tutorials_feed example_platform (import_module example_platform (example_world 0))
     (example_app [(''index'', Map.empty), (''tutorials/intro'', example_meta), (''tutorials'', Map.empty)])
     (example_world 3600000000)) = None"
proof -
  define a where "a = example_app [(''index'', Map.empty), (''tutorials/intro'', example_meta),
                              (''tutorials'', Map.empty)]"
  have md: "metadata a = [(''index'', Map.empty), (''tutorials/intro'', example_meta), (''tutorials'', Map.empty)]"
    by (simp add: a_def example_app_def)
  from feed_selects_tutorials [of a]
  have "tutorials_of a = filter (prefix ''tutorials/'') (map fst (metadata a))"
    by blast
  then have t: "tutorials_of a = [''tutorials/intro'']"
    by (simp add: md)
  have ha: "html_baseurl a = ''https://www.pyopensci.org/python-package-guide/''"
    "get_target_uri a = (\<lambda>docname. docname @ ''.html'')"
    by (simp_all add: a_def example_app_def)
  have i: "feed_items_of example_platform w a = Inr [example_item ''Intro'' (example_date 10 None)]" for w
    by (simp add: feed_items_of_def t md from_meta_def get_date_updated_def fromisoformat_example
        example_meta_def example_item_def ha example_platform_def)
  have o: "openable (example_world c) path" for c path
    by (simp add: example_world_def)
  have r: "\<exists>doc. fst (RSSFeed_render (RSSFeed_init mm [example_item ''Intro'' (example_date 10 None)] None)) = Inr doc" for mm
    by (simp add: RSSFeed_render_def sorted_reverse_def RSSItem_render_def format_rfc_2822_total
        RSSFeed_init_def example_item_def example_date_def)
  have "fst (generate_tutorials_feed example_platform (import_module example_platform (example_world 0)) a
          (example_world 3600000000)) = None"
    using r [of "import_module example_platform (example_world 0)"]
    by (auto simp: generate_tutorials_feed_def Let_def i o openable_add_log split: sum.splits)
  with t i show ?thesis
    unfolding a_def by simp
qed

end
